theory Spec2Isabelle
  imports Main "HOL-Library.Sublist"
begin

section \<open>Go values shared by the model\<close>

text \<open>
  A Go \<open>error\<close> is modelled by its message (\<open>err.Error()\<close>); a runtime panic is a value
  of its own, so a function that indexes a string out of range returns it instead of some
  unspecified character.
\<close>

datatype goerr = Error string | PanicIndexOutOfRange

text \<open>\<open>strings.Contains(s, substr)\<close>.\<close>

definition Contains :: "string \<Rightarrow> string \<Rightarrow> bool" where
  "Contains s substr = sublist substr s"

text \<open>\<open>strings.Split(s, sep)\<close> for the one-byte separator the source uses.\<close>

fun Split :: "string \<Rightarrow> char \<Rightarrow> string list" where
  "Split [] sep = [[]]"
| "Split (c # cs) sep =
     (if c = sep then [] # Split cs sep
      else (case Split cs sep of [] \<Rightarrow> [[c]] | w # ws \<Rightarrow> (c # w) # ws))"

section \<open>The tar archive: headers, the source stream, the writer\<close>

text \<open>
  \<open>tar.Header\<close> with the fields the source reads or sets. \<open>Size\<close> is an \<open>int64\<close>;
  the only value the source stores in it is the length of a replacement text.
\<close>

record Header =
  Name :: string
  Mode :: int
  Size :: int
  Typeflag :: char
  Linkname :: string

definition TypeDir :: char where
  "TypeDir = CHR ''5''"

text \<open>
  The exported container filesystem as \<open>tar.Reader\<close> delivers it: \<open>tr.Next()\<close> yields
  the next header, an error (\<open>Corrupt\<close>), or \<open>io.EOF\<close> at the end of the list. An entry
  carries the bytes that reading its body delivers and the error, if any, that the read
  ends with.
\<close>

datatype tar_item = Entry Header string "string option" | Corrupt string

type_synonym tar_stream = "tar_item list"

text \<open>
  The \<open>tarWriter\<close> interface: the calls made on it so far, and how the implementation
  answers a call after a given history (\<open>None\<close> is a nil error). \<open>io.Copy\<close> into the
  writer is one \<open>Write\<close> of all the bytes read.
\<close>

datatype tar_op = WriteHeader Header | Write string

record tarWriter =
  written :: "tar_op list"
  answer :: "tar_op list \<Rightarrow> tar_op \<Rightarrow> string option"

definition tw_call :: "tar_op \<Rightarrow> tarWriter \<Rightarrow> goerr option \<times> tarWriter" where
  "tw_call op tw =
     (case answer tw (written tw) op of
        Some msg \<Rightarrow> (Some (Error msg), tw)
      | None \<Rightarrow> (None, tw\<lparr>written := written tw @ [op]\<rparr>))"

text \<open>\<open>io.Copy(tw, src)\<close>: no call to \<open>Write\<close> when nothing was read; a failed write
  wins over the read error.\<close>

definition io_Copy :: "tarWriter \<Rightarrow> string \<Rightarrow> string option \<Rightarrow> goerr option \<times> tarWriter" where
  "io_Copy tw body rerr =
     (case (if body = [] then (None, tw) else tw_call (Write body) tw) of
        (Some e, tw') \<Rightarrow> (Some e, tw')
      | (None, tw') \<Rightarrow> (map_option Error rerr, tw'))"

text \<open>\<open>io.Copy(ioutil.Discard, tr)\<close>: the body is read and dropped.\<close>

definition io_Copy_Discard :: "string \<Rightarrow> string option \<Rightarrow> goerr option" where
  "io_Copy_Discard body rerr = map_option Error rerr"

section \<open>The path policies of the filesystem assembler\<close>

definition exclude :: "string \<Rightarrow> bool" where
  "exclude n \<longleftrightarrow>
     n \<in> set [''.dockerenv'', ''Dockerfile'', ''dev/console'', ''dev/pts'', ''dev/shm'',
       ''etc/hostname'']"

definition etc_hosts :: string where
  "etc_hosts =
     ''127.0.0.1       localhost\<newline>'' @
     ''::1     localhost ip6-localhost ip6-loopback\<newline>'' @
     ''fe00::0 ip6-localnet\<newline>'' @
     ''ff00::0 ip6-mcastprefix\<newline>'' @
     ''ff02::1 ip6-allnodes\<newline>'' @
     ''ff02::2 ip6-allrouters\<newline>''"

definition etc_resolv_conf :: string where
  "etc_resolv_conf =
     ''nameserver 8.8.8.8\<newline>'' @
     ''nameserver 8.8.4.4\<newline>'' @
     ''nameserver 2001:4860:4860::8888\<newline>'' @
     ''nameserver 2001:4860:4860::8844\<newline>''"

text \<open>The map \<open>replace\<close>; a key that is not in a Go map reads as the empty string.\<close>

definition replace :: "string \<Rightarrow> string" where
  "replace n =
     (if n = ''etc/hosts'' then etc_hosts
      else if n = ''etc/resolv.conf'' then etc_resolv_conf
      else [])"

section \<open>tarPrefix\<close>

text \<open>The loop of \<open>tarPrefix\<close> over the components of the path; \<open>mkdir\<close> is the
  directory name built so far.\<close>

fun tarPrefix_dirs :: "string \<Rightarrow> string list \<Rightarrow> tarWriter \<Rightarrow> goerr option \<times> tarWriter" where
  "tarPrefix_dirs mkdir [] tw = (None, tw)"
| "tarPrefix_dirs mkdir (dir # dirs) tw =
     (let mkdir1 = mkdir @ dir;
          hdr = \<lparr>Name = mkdir1, Mode = 493, Size = 0, Typeflag = TypeDir, Linkname = []\<rparr>
      in case tw_call (WriteHeader hdr) tw of
           (Some e, tw') \<Rightarrow> (Some e, tw')
         | (None, tw') \<Rightarrow> tarPrefix_dirs (mkdir1 @ ''/'') dirs tw')"

text \<open>
  \<open>path[len(path)-1]\<close> is read only when the path is not empty. After the trailing slash
  is cut off, \<open>path[0]\<close> is read with no check: on the empty string Go panics.
\<close>

definition tarPrefix :: "string \<Rightarrow> tarWriter \<Rightarrow> goerr option \<times> tarWriter" where
  "tarPrefix path tw =
     (if path = [] then (None, tw)
      else if last path \<noteq> CHR ''/'' then
        (Some (Error (''path does not end with /: '' @ path)), tw)
      else
        (let path1 = butlast path
         in case path1 of
              [] \<Rightarrow> (Some PanicIndexOutOfRange, tw)
            | c # _ \<Rightarrow>
                if c = CHR ''/'' then (Some (Error (''path should be relative: '' @ path1)), tw)
                else tarPrefix_dirs [] (Split path1 (CHR ''/'')) tw))"

section \<open>The container engine\<close>

text \<open>
  \<open>dockerPull\<close>, \<open>dockerCreate\<close>, \<open>dockerExport\<close> and \<open>dockerRm\<close> talk to the engine.
  The engine is a parameter: it answers each call from the calls made before it, with an
  error message or a result. The export is given as the entries that \<open>tar.NewReader\<close>
  reads from the exported bytes.
\<close>

datatype docker_call =
  Pull string bool bool | Create string | Export string | Rm string

record engine =
  pull_reply :: "docker_call list \<Rightarrow> string \<Rightarrow> bool \<Rightarrow> bool \<Rightarrow> string option"
  create_reply :: "docker_call list \<Rightarrow> string \<Rightarrow> string + string"
  export_reply :: "docker_call list \<Rightarrow> string \<Rightarrow> string + tar_stream"
  rm_reply :: "docker_call list \<Rightarrow> string \<Rightarrow> string option"

definition dockerPull ::
  "engine \<Rightarrow> string \<Rightarrow> bool \<Rightarrow> bool \<Rightarrow> docker_call list \<Rightarrow> string option \<times> docker_call list" where
  "dockerPull eng img pull trust tr =
     (pull_reply eng tr img pull trust, tr @ [Pull img pull trust])"

definition dockerCreate ::
  "engine \<Rightarrow> string \<Rightarrow> docker_call list \<Rightarrow> (string + string) \<times> docker_call list" where
  "dockerCreate eng img tr = (create_reply eng tr img, tr @ [Create img])"

definition dockerExport ::
  "engine \<Rightarrow> string \<Rightarrow> docker_call list \<Rightarrow> (string + tar_stream) \<times> docker_call list" where
  "dockerExport eng container tr = (export_reply eng tr container, tr @ [Export container])"

definition dockerRm ::
  "engine \<Rightarrow> string \<Rightarrow> docker_call list \<Rightarrow> string option \<times> docker_call list" where
  "dockerRm eng container tr = (rm_reply eng tr container, tr @ [Rm container])"

section \<open>ImageTar\<close>

text \<open>Creation of the container, with the pull and the second attempt when the image
  was not found.\<close>

definition ImageTar_create ::
  "engine \<Rightarrow> string \<Rightarrow> bool \<Rightarrow> docker_call list \<Rightarrow> (goerr + string) \<times> docker_call list" where
  "ImageTar_create eng img trust tr =
     (case dockerCreate eng img tr of
        (Inr container, tr1) \<Rightarrow> (Inr container, tr1)
      | (Inl err, tr1) \<Rightarrow>
          if Contains err ''No such image'' then
            (case dockerPull eng img True trust tr1 of
               (Some perr, tr2) \<Rightarrow>
                 (Inl (Error (''Could not pull image '' @ img @ '': '' @ perr)), tr2)
             | (None, tr2) \<Rightarrow>
                 (case dockerCreate eng img tr2 of
                    (Inl err2, tr3) \<Rightarrow>
                      (Inl (Error (''Failed to docker create image '' @ img @ '': '' @ err2)), tr3)
                  | (Inr container, tr3) \<Rightarrow> (Inr container, tr3)))
          else (Inl (Error (''Failed to create docker image '' @ img @ '': '' @ err)), tr1))"

text \<open>Everything \<open>ImageTar\<close> does before it reads the exported archive: the check of the
  prefix, the leading directories, and the calls to the engine.\<close>

definition ImageTar_fetch ::
  "engine \<Rightarrow> string \<Rightarrow> string \<Rightarrow> tarWriter \<Rightarrow> bool \<Rightarrow> bool \<Rightarrow> docker_call list \<Rightarrow>
     (goerr + tar_stream) \<times> tarWriter \<times> docker_call list" where
  "ImageTar_fetch eng img pfx tw trust pull tr =
     (if pfx \<noteq> [] \<and> last pfx \<noteq> CHR ''/'' then
        (Inl (Error (''prefix does not end with /: '' @ pfx)), tw, tr)
      else
        (case tarPrefix pfx tw of
           (Some e, tw1) \<Rightarrow> (Inl e, tw1, tr)
         | (None, tw1) \<Rightarrow>
             (case (if pull \<or> trust then dockerPull eng img pull trust tr else (None, tr)) of
                (Some perr, tr1) \<Rightarrow>
                  (Inl (Error (''Could not pull image '' @ img @ '': '' @ perr)), tw1, tr1)
              | (None, tr1) \<Rightarrow>
                  (case ImageTar_create eng img trust tr1 of
                     (Inl e, tr2) \<Rightarrow> (Inl e, tw1, tr2)
                   | (Inr container, tr2) \<Rightarrow>
                       (case dockerExport eng container tr2 of
                          (Inl xerr, tr3) \<Rightarrow>
                            (Inl (Error (''Failed to docker export container from container ''
                               @ container @ '': '' @ xerr)), tw1, tr3)
                        | (Inr contents, tr3) \<Rightarrow>
                            (case dockerRm eng container tr3 of
                               (Some rerr, tr4) \<Rightarrow>
                                 (Inl (Error (''Failed to docker rm container '' @ container
                                    @ '': '' @ rerr)), tw1, tr4)
                             | (None, tr4) \<Rightarrow> (Inr contents, tw1, tr4)))))))"

text \<open>The loop over the entries of the exported archive.\<close>

fun ImageTar_copy :: "string \<Rightarrow> tar_stream \<Rightarrow> tarWriter \<Rightarrow> goerr option \<times> tarWriter" where
  "ImageTar_copy pfx [] tw = (None, tw)"
| "ImageTar_copy pfx (Corrupt msg # rest) tw = (Some (Error msg), tw)"
| "ImageTar_copy pfx (Entry hdr body rerr # rest) tw =
     (if exclude (Name hdr) then
        (case io_Copy_Discard body rerr of
           Some e \<Rightarrow> (Some e, tw)
         | None \<Rightarrow> ImageTar_copy pfx rest tw)
      else if replace (Name hdr) \<noteq> [] then
        (let contents = replace (Name hdr);
             hdr1 = hdr\<lparr>Size := int (length contents)\<rparr>;
             hdr2 = hdr1\<lparr>Name := pfx @ Name hdr1\<rparr>
         in case tw_call (WriteHeader hdr2) tw of
              (Some e, tw1) \<Rightarrow> (Some e, tw1)
            | (None, tw1) \<Rightarrow>
                (case io_Copy tw1 contents None of
                   (Some e, tw2) \<Rightarrow> (Some e, tw2)
                 | (None, tw2) \<Rightarrow>
                     (case io_Copy_Discard body rerr of
                        Some e \<Rightarrow> (Some e, tw2)
                      | None \<Rightarrow> ImageTar_copy pfx rest tw2)))
      else
        (let hdr1 = hdr\<lparr>Name := pfx @ Name hdr\<rparr>
         in case tw_call (WriteHeader hdr1) tw of
              (Some e, tw1) \<Rightarrow> (Some e, tw1)
            | (None, tw1) \<Rightarrow>
                (case io_Copy tw1 body rerr of
                   (Some e, tw2) \<Rightarrow> (Some e, tw2)
                 | (None, tw2) \<Rightarrow> ImageTar_copy pfx rest tw2)))"

definition ImageTar ::
  "engine \<Rightarrow> string \<Rightarrow> string \<Rightarrow> tarWriter \<Rightarrow> bool \<Rightarrow> bool \<Rightarrow> docker_call list \<Rightarrow>
     goerr option \<times> tarWriter \<times> docker_call list" where
  "ImageTar eng img pfx tw trust pull tr =
     (case ImageTar_fetch eng img pfx tw trust pull tr of
        (Inl e, tw1, tr1) \<Rightarrow> (Some e, tw1, tr1)
      | (Inr contents, tw1, tr1) \<Rightarrow>
          (case ImageTar_copy pfx contents tw1 of (r, tw2) \<Rightarrow> (r, tw2, tr1)))"

section \<open>Notions used to state the properties of the assembler\<close>

text \<open>The stream without the entries of the exclusion set.\<close>

definition kept :: "tar_stream \<Rightarrow> tar_stream" where
  "kept S = filter (\<lambda>it. case it of Entry h body rerr \<Rightarrow> \<not> exclude (Name h) | Corrupt msg \<Rightarrow> True) S"

text \<open>A call on the writer comes from an entry of the stream that is not excluded: a
  header carries the prefixed name of such an entry, a write carries its body or its
  replacement text.\<close>

definition from_kept_entry :: "string \<Rightarrow> tar_stream \<Rightarrow> tar_op \<Rightarrow> bool" where
  "from_kept_entry pfx S op \<longleftrightarrow>
     (\<exists>h body rerr. Entry h body rerr \<in> set S \<and> \<not> exclude (Name h) \<and>
        (case op of
           WriteHeader h' \<Rightarrow> Name h' = pfx @ Name h
         | Write bs \<Rightarrow> bs = body \<or> bs = replace (Name h)))"

text \<open>The stream with the size and the body of every entry of the replacement set
  wiped.\<close>

fun scrub :: "tar_item \<Rightarrow> tar_item" where
  "scrub (Entry h body rerr) =
     (if Name h \<in> {''etc/hosts'', ''etc/resolv.conf''} then Entry (h\<lparr>Size := 0\<rparr>) [] rerr
      else Entry h body rerr)"
| "scrub (Corrupt msg) = Corrupt msg"

definition is_Create :: "docker_call \<Rightarrow> bool" where
  "is_Create c = (case c of Create _ \<Rightarrow> True | _ \<Rightarrow> False)"

definition is_Pull :: "docker_call \<Rightarrow> bool" where
  "is_Pull c = (case c of Pull _ _ _ \<Rightarrow> True | _ \<Rightarrow> False)"


text \<open>Values for the examples: a writer that accepts every call, a three-entry export, and
  an engine that finds the image only after it was pulled.\<close>

definition example_writer :: tarWriter where
  "example_writer = \<lparr>written = [], answer = (\<lambda>h c. None)\<rparr>"

definition example_stream :: tar_stream where
  "example_stream =
     [Entry \<lparr>Name = ''.dockerenv'', Mode = 493, Size = 0, Typeflag = CHR ''0'', Linkname = []\<rparr>
        [] None,
      Entry \<lparr>Name = ''etc/resolv.conf'', Mode = 420, Size = 10, Typeflag = CHR ''0'', Linkname = []\<rparr>
        ''search lan'' None,
      Entry \<lparr>Name = ''bin/sh'', Mode = 493, Size = 2, Typeflag = CHR ''0'', Linkname = []\<rparr>
        ''#!'' None]"

definition example_engine :: engine where
  "example_engine =
     \<lparr>pull_reply = (\<lambda>h i p t. None),
      create_reply = (\<lambda>h i. if Pull i True False \<in> set h then Inr ''c0''
                              else Inl (''Error: No such image: '' @ i)),
      export_reply = (\<lambda>h c. Inr example_stream),
      rm_reply = (\<lambda>h c. None)\<rparr>"

section \<open>The prefix "/"\<close>

lemma tarPrefix_slash: "tarPrefix ''/'' tw = (Some PanicIndexOutOfRange, tw)"
  by (simp add: tarPrefix_def)

text \<open>
  C10. For the prefix \<open>"/"\<close> the prefix-writing step panics: \<open>tarPrefix\<close> cuts the
  trailing slash, which leaves the empty string, and reads its first byte. \<open>ImageTar\<close>
  passes \<open>"/"\<close> on (it is not empty and ends with a slash), so the panic is reached from
  there, before any call to the engine and with nothing written. Every other path that
  starts and ends with a slash gets the error "path should be relative" (an absolute path
  with no trailing slash is refused one check earlier, also by an error).
\<close>

theorem tarPrefix_root_panics:
  "tarPrefix ''/'' tw = (Some PanicIndexOutOfRange, tw)
   \<and> ImageTar eng img ''/'' tw trust pull tr = (Some PanicIndexOutOfRange, tw, tr)
   \<and> (\<forall>p. p \<noteq> [] \<and> hd p = CHR ''/'' \<and> p \<noteq> ''/'' \<longrightarrow>
        tarPrefix p tw =
          (Some (Error (if last p = CHR ''/'' then ''path should be relative: '' @ butlast p
                        else ''path does not end with /: '' @ p)), tw))"
proof (intro conjI allI impI)
  show "tarPrefix ''/'' tw = (Some PanicIndexOutOfRange, tw)"
    by (rule tarPrefix_slash)
  show "ImageTar eng img ''/'' tw trust pull tr = (Some PanicIndexOutOfRange, tw, tr)"
    by (simp add: ImageTar_def ImageTar_fetch_def tarPrefix_slash)
next
  fix p :: string
  assume p: "p \<noteq> [] \<and> hd p = CHR ''/'' \<and> p \<noteq> ''/''"
  then obtain cs where pc: "p = CHR ''/'' # cs" and cs: "cs \<noteq> []"
    by (cases p) auto
  from cs have "butlast p = CHR ''/'' # butlast cs"
    by (simp add: pc)
  then show "tarPrefix p tw =
          (Some (Error (if last p = CHR ''/'' then ''path should be relative: '' @ butlast p
                        else ''path does not end with /: '' @ p)), tw)"
    using p by (simp add: tarPrefix_def)
qed

theorem tarPrefix_root_panics_witness:
  "tarPrefix ''/a/'' \<lparr>written = [], answer = (\<lambda>h c. None)\<rparr> =
     (Some (Error ''path should be relative: /a''), \<lparr>written = [], answer = (\<lambda>h c. None)\<rparr>)"
  using tarPrefix_root_panics [of "\<lparr>written = [], answer = (\<lambda>h c. None)\<rparr>"]
  by simp

section \<open>The copy loop\<close>

lemma tw_call_cases:
  "tw_call op tw = (r, tw') \<Longrightarrow>
     (r = None \<and> tw' = tw\<lparr>written := written tw @ [op]\<rparr>) \<or> (r \<noteq> None \<and> tw' = tw)"
  by (auto simp: tw_call_def split: option.splits)

lemma io_Copy_cases:
  "io_Copy tw body rerr = (r, tw') \<Longrightarrow>
     tw' = tw \<or> (body \<noteq> [] \<and> tw' = tw\<lparr>written := written tw @ [Write body]\<rparr>)"
  by (auto simp: io_Copy_def split: option.splits prod.splits if_splits dest: tw_call_cases)

lemma io_Copy_ok:
  "io_Copy tw body rerr = (None, tw') \<Longrightarrow>
     rerr = None \<and> tw' = (if body = [] then tw else tw\<lparr>written := written tw @ [Write body]\<rparr>)"
  by (auto simp: io_Copy_def split: option.splits prod.splits if_splits dest: tw_call_cases)

lemma from_kept_entry_Cons: "from_kept_entry pfx S op \<Longrightarrow> from_kept_entry pfx (it # S) op"
  by (auto simp: from_kept_entry_def)


lemma ImageTar_copy_step:
  assumes "ImageTar_copy pfx (Entry h body rerr # rest) tw = (r, tw')"
  shows "\<exists>ops1 tw1. written tw1 = written tw @ ops1 \<and> answer tw1 = answer tw
           \<and> (\<forall>op \<in> set ops1. from_kept_entry pfx [Entry h body rerr] op)
           \<and> ((r \<noteq> None \<and> tw' = tw1) \<or> ImageTar_copy pfx rest tw1 = (r, tw'))"
proof -
  consider (ex) "exclude (Name h)"
    | (re) "\<not> exclude (Name h)" "replace (Name h) \<noteq> []"
    | (cp) "\<not> exclude (Name h)" "replace (Name h) = []"
    by blast
  then show ?thesis
  proof cases
    case ex
    with assms have "(r \<noteq> None \<and> tw' = tw) \<or> ImageTar_copy pfx rest tw = (r, tw')"
    proof (cases "io_Copy_Discard body rerr")
      case None
      with ex assms show ?thesis by simp
    next
      case (Some e)
      with ex assms have "r = Some e" "tw' = tw" by simp_all
      then show ?thesis by simp
    qed
    then show ?thesis
      by (intro exI [of _ "[]"] exI [of _ tw]) simp
  next
    case re
    let ?h2 = "h\<lparr>Size := int (length (replace (Name h))), Name := pfx @ Name h\<rparr>"
    obtain r1 tw1 where c1: "tw_call (WriteHeader ?h2) tw = (r1, tw1)"
      by (cases "tw_call (WriteHeader ?h2) tw") auto
    show ?thesis
    proof (cases r1)
      case (Some e)
      with c1 assms re have "r \<noteq> None \<and> tw' = tw1" by (auto simp: Let_def)
      moreover from c1 Some have "tw1 = tw" by (auto dest: tw_call_cases)
      ultimately show ?thesis
        by (intro exI [of _ "[]"] exI [of _ tw]) simp
    next
      case None
      with c1 have w1: "written tw1 = written tw @ [WriteHeader ?h2]" "answer tw1 = answer tw"
        by (auto dest: tw_call_cases)
      obtain r2 tw2 where c2: "io_Copy tw1 (replace (Name h)) None = (r2, tw2)"
        by (cases "io_Copy tw1 (replace (Name h)) None") auto
      then have w2: "written tw2 = written tw1 \<or> written tw2 = written tw1 @ [Write (replace (Name h))]"
        "answer tw2 = answer tw1"
        by (auto dest: io_Copy_cases)
      have fin: "(r \<noteq> None \<and> tw' = tw2) \<or> ImageTar_copy pfx rest tw2 = (r, tw')"
        using assms re c1 None c2
        by (cases r2; cases rerr) (auto simp: Let_def io_Copy_Discard_def)
      have hk: "from_kept_entry pfx [Entry h body rerr] (WriteHeader ?h2)"
        "from_kept_entry pfx [Entry h body rerr] (Write (replace (Name h)))"
        using re by (auto simp: from_kept_entry_def)
      from w2(1) show ?thesis
      proof
        assume "written tw2 = written tw1"
        with w1 w2(2) fin hk show ?thesis
          by (intro exI [of _ "[WriteHeader ?h2]"] exI [of _ tw2]) simp
      next
        assume "written tw2 = written tw1 @ [Write (replace (Name h))]"
        with w1 w2(2) fin hk show ?thesis
          by (intro exI [of _ "[WriteHeader ?h2, Write (replace (Name h))]"] exI [of _ tw2]) simp
      qed
    qed
  next
    case cp
    let ?h1 = "h\<lparr>Name := pfx @ Name h\<rparr>"
    obtain r1 tw1 where c1: "tw_call (WriteHeader ?h1) tw = (r1, tw1)"
      by (cases "tw_call (WriteHeader ?h1) tw") auto
    show ?thesis
    proof (cases r1)
      case (Some e)
      with c1 assms cp have "r \<noteq> None \<and> tw' = tw1" by (auto simp: Let_def)
      moreover from c1 Some have "tw1 = tw" by (auto dest: tw_call_cases)
      ultimately show ?thesis
        by (intro exI [of _ "[]"] exI [of _ tw]) simp
    next
      case None
      with c1 have w1: "written tw1 = written tw @ [WriteHeader ?h1]" "answer tw1 = answer tw"
        by (auto dest: tw_call_cases)
      obtain r2 tw2 where c2: "io_Copy tw1 body rerr = (r2, tw2)"
        by (cases "io_Copy tw1 body rerr") auto
      then have w2: "written tw2 = written tw1 \<or> written tw2 = written tw1 @ [Write body]"
        "answer tw2 = answer tw1"
        by (auto dest: io_Copy_cases)
      have fin: "(r \<noteq> None \<and> tw' = tw2) \<or> ImageTar_copy pfx rest tw2 = (r, tw')"
        using assms cp c1 None c2 by (auto simp: Let_def split: option.splits)
      have hk: "from_kept_entry pfx [Entry h body rerr] (WriteHeader ?h1)"
        "from_kept_entry pfx [Entry h body rerr] (Write body)"
        using cp by (auto simp: from_kept_entry_def)
      from w2(1) show ?thesis
      proof
        assume "written tw2 = written tw1"
        with w1 w2(2) fin hk show ?thesis
          by (intro exI [of _ "[WriteHeader ?h1]"] exI [of _ tw2]) simp
      next
        assume "written tw2 = written tw1 @ [Write body]"
        with w1 w2(2) fin hk show ?thesis
          by (intro exI [of _ "[WriteHeader ?h1, Write body]"] exI [of _ tw2]) simp
      qed
    qed
  qed
qed

lemma from_kept_entry_mono:
  "from_kept_entry pfx S op \<Longrightarrow> set S \<subseteq> set S' \<Longrightarrow> from_kept_entry pfx S' op"
  unfolding from_kept_entry_def by blast

lemma ImageTar_copy_ops:
  "ImageTar_copy pfx S tw = (r, tw') \<Longrightarrow>
     \<exists>ops. written tw' = written tw @ ops \<and> answer tw' = answer tw
       \<and> (\<forall>op \<in> set ops. from_kept_entry pfx S op)"
proof (induction S arbitrary: tw)
  case Nil
  then show ?case by simp
next
  case (Cons it S)
  show ?case
  proof (cases it)
    case (Corrupt msg)
    with Cons.prems show ?thesis by simp
  next
    case (Entry h body rerr)
    from ImageTar_copy_step [OF Cons.prems [unfolded Entry]]
    obtain ops1 tw1 where s: "written tw1 = written tw @ ops1" "answer tw1 = answer tw"
      "\<forall>op \<in> set ops1. from_kept_entry pfx [Entry h body rerr] op"
      "(r \<noteq> None \<and> tw' = tw1) \<or> ImageTar_copy pfx S tw1 = (r, tw')"
      by blast
    have k1: "\<forall>op \<in> set ops1. from_kept_entry pfx (it # S) op"
      using s(3) Entry by (auto intro: from_kept_entry_mono)
    from s(4) show ?thesis
    proof
      assume "r \<noteq> None \<and> tw' = tw1"
      with s k1 show ?thesis by auto
    next
      assume "ImageTar_copy pfx S tw1 = (r, tw')"
      from Cons.IH [OF this] obtain ops where o: "written tw' = written tw1 @ ops"
        "answer tw' = answer tw1" "\<forall>op \<in> set ops. from_kept_entry pfx S op"
        by blast
      have "\<forall>op \<in> set ops. from_kept_entry pfx (it # S) op"
        using o(3) by (auto intro: from_kept_entry_mono)
      with k1 o s show ?thesis
        by (intro exI [of _ "ops1 @ ops"]) auto
    qed
  qed
qed

lemma ImageTar_copy_kept:
  "ImageTar_copy pfx S tw = (None, tw') \<Longrightarrow> ImageTar_copy pfx (kept S) tw = (None, tw')"
proof (induction pfx S tw rule: ImageTar_copy.induct)
  case (1 pfx tw)
  then show ?case by (simp add: kept_def)
next
  case (2 pfx msg rest tw)
  then show ?case by simp
next
  case (3 pfx hdr body rerr rest tw)
  then show ?case
    by (auto simp: kept_def Let_def split: option.splits prod.splits if_splits)
qed


lemma replace_paths: "Name h \<in> {''etc/hosts'', ''etc/resolv.conf''} \<longleftrightarrow> replace (Name h) \<noteq> []"
  by (auto simp: replace_def etc_hosts_def etc_resolv_conf_def)

lemma replace_not_excluded: "replace n \<noteq> [] \<Longrightarrow> \<not> exclude n"
  by (auto simp: replace_def exclude_def split: if_splits)

lemma ImageTar_copy_replaced_ok:
  assumes "ImageTar_copy pfx (Entry h body rerr # rest) tw = (None, tw')"
    and "replace (Name h) \<noteq> []"
  shows "\<exists>tw1. ImageTar_copy pfx rest tw1 = (None, tw') \<and>
           written tw1 = written tw @
             [WriteHeader (h\<lparr>Size := int (length (replace (Name h))), Name := pfx @ Name h\<rparr>),
              Write (replace (Name h))]"
proof -
  let ?h2 = "h\<lparr>Size := int (length (replace (Name h))), Name := pfx @ Name h\<rparr>"
  have ne: "\<not> exclude (Name h)"
    using assms(2) by (rule replace_not_excluded)
  obtain r1 tw1 where c1: "tw_call (WriteHeader ?h2) tw = (r1, tw1)"
    by (cases "tw_call (WriteHeader ?h2) tw") auto
  obtain r2 tw2 where c2: "io_Copy tw1 (replace (Name h)) None = (r2, tw2)"
    by (cases "io_Copy tw1 (replace (Name h)) None") auto
  have r1: "r1 = None"
    using assms ne c1 by (cases r1) (auto simp: Let_def)
  have r2: "r2 = None"
    using assms ne c1 c2 r1 by (cases r2) (auto simp: Let_def)
  have rest: "ImageTar_copy pfx rest tw2 = (None, tw')"
    using assms ne c1 c2 r1 r2 by (cases rerr) (auto simp: Let_def io_Copy_Discard_def)
  from c1 r1 have "written tw1 = written tw @ [WriteHeader ?h2]"
    by (auto dest: tw_call_cases)
  moreover from c2 r2 assms(2) have "written tw2 = written tw1 @ [Write (replace (Name h))]"
    by (auto dest: io_Copy_ok)
  ultimately show ?thesis using rest by auto
qed

lemma ImageTar_copy_replaced:
  "ImageTar_copy pfx S tw = (None, tw') \<Longrightarrow> Entry h body rerr \<in> set S \<Longrightarrow>
   replace (Name h) \<noteq> [] \<Longrightarrow>
   \<exists>pre post. written tw' = written tw @ pre @
     [WriteHeader (h\<lparr>Size := int (length (replace (Name h))), Name := pfx @ Name h\<rparr>),
      Write (replace (Name h))] @ post"
proof (induction S arbitrary: tw)
  case Nil
  then show ?case by simp
next
  case (Cons it S)
  let ?pair = "[WriteHeader (h\<lparr>Size := int (length (replace (Name h))), Name := pfx @ Name h\<rparr>),
      Write (replace (Name h))]"
  show ?case
  proof (cases "it = Entry h body rerr")
    case True
    from ImageTar_copy_replaced_ok [OF Cons.prems(1) [unfolded True] Cons.prems(3)]
    obtain tw1 where t: "ImageTar_copy pfx S tw1 = (None, tw')"
      "written tw1 = written tw @ ?pair" by blast
    from ImageTar_copy_ops [OF t(1)] obtain ops where "written tw' = written tw1 @ ops"
      by blast
    with t(2) have "written tw' = written tw @ [] @ ?pair @ ops" by simp
    then show ?thesis by blast
  next
    case False
    with Cons.prems(2) have mem: "Entry h body rerr \<in> set S" by simp
    show ?thesis
    proof (cases it)
      case (Corrupt msg)
      with Cons.prems(1) show ?thesis by simp
    next
      case (Entry h0 body0 rerr0)
      from ImageTar_copy_step [OF Cons.prems(1) [unfolded Entry]]
      obtain ops1 tw1 where s: "written tw1 = written tw @ ops1"
        "ImageTar_copy pfx S tw1 = (None, tw')"
        by auto
      from Cons.IH [OF s(2) mem Cons.prems(3)]
      obtain pre post where "written tw' = written tw1 @ pre @ ?pair @ post" by blast
      with s(1) have "written tw' = written tw @ (ops1 @ pre) @ ?pair @ post" by simp
      then show ?thesis by blast
    qed
  qed
qed

lemma ImageTar_copy_scrub: "ImageTar_copy pfx (map scrub S) tw = ImageTar_copy pfx S tw"
proof (induction pfx S tw rule: ImageTar_copy.induct)
  case (1 pfx tw)
  then show ?case by simp
next
  case (2 pfx msg rest tw)
  then show ?case by simp
next
  case (3 pfx hdr body rerr rest tw)
  show ?case
  proof (cases "Name hdr \<in> {''etc/hosts'', ''etc/resolv.conf''}")
    case True
    then have re: "replace (Name hdr) \<noteq> []" "\<not> exclude (Name hdr)"
      using replace_paths [of hdr] replace_not_excluded [of "Name hdr"] by auto
    have "ImageTar_copy pfx (Entry (hdr\<lparr>Size := 0\<rparr>) [] rerr # map scrub rest) tw =
          ImageTar_copy pfx (Entry hdr body rerr # rest) tw"
      using re "3.IH"(2)
      by (simp add: Let_def io_Copy_Discard_def split: option.splits prod.splits)
    with True show ?thesis by simp
  next
    case False
    then have re: "replace (Name hdr) = []"
      using replace_paths [of hdr] by auto
    show ?thesis
      using False re "3.IH"(1,3)
      by (simp add: Let_def split: option.splits prod.splits)
  qed
qed

section \<open>Creation of the container\<close>

lemma ImageTar_fetch_created:
  assumes "pfx = [] \<or> last pfx = CHR ''/''"
    and "tarPrefix pfx tw = (None, tw1)"
    and "pull \<or> trust \<longrightarrow> pull_reply eng tr img pull trust = None"
    and "tr0 = (if pull \<or> trust then tr @ [Pull img pull trust] else tr)"
  shows "ImageTar_fetch eng img pfx tw trust pull tr =
     (case ImageTar_create eng img trust tr0 of
        (Inl e, tr2) \<Rightarrow> (Inl e, tw1, tr2)
      | (Inr container, tr2) \<Rightarrow>
          (case export_reply eng tr2 container of
             Inl xerr \<Rightarrow>
               (Inl (Error (''Failed to docker export container from container ''
                  @ container @ '': '' @ xerr)), tw1, tr2 @ [Export container])
           | Inr contents \<Rightarrow>
               (case rm_reply eng (tr2 @ [Export container]) container of
                  Some rerr \<Rightarrow>
                    (Inl (Error (''Failed to docker rm container '' @ container
                       @ '': '' @ rerr)), tw1, tr2 @ [Export container, Rm container])
                | None \<Rightarrow> (Inr contents, tw1, tr2 @ [Export container, Rm container]))))"
proof -
  have pre: "(if pull \<or> trust then dockerPull eng img pull trust tr else (None, tr)) = (None, tr0)"
    using assms(3,4) by (simp add: dockerPull_def)
  obtain r tr2 where cr: "ImageTar_create eng img trust tr0 = (r, tr2)"
    by (cases "ImageTar_create eng img trust tr0") auto
  have start: "ImageTar_fetch eng img pfx tw trust pull tr =
     (case r of
        Inl e \<Rightarrow> (Inl e, tw1, tr2)
      | Inr container \<Rightarrow>
          (case dockerExport eng container tr2 of
             (Inl xerr, tr3) \<Rightarrow>
               (Inl (Error (''Failed to docker export container from container ''
                  @ container @ '': '' @ xerr)), tw1, tr3)
           | (Inr contents, tr3) \<Rightarrow>
               (case dockerRm eng container tr3 of
                  (Some rerr, tr4) \<Rightarrow>
                    (Inl (Error (''Failed to docker rm container '' @ container
                       @ '': '' @ rerr)), tw1, tr4)
                | (None, tr4) \<Rightarrow> (Inr contents, tw1, tr4))))"
    using assms(1) by (auto simp add: ImageTar_fetch_def assms(2) pre cr)
  show ?thesis
  proof (cases r)
    case (Inl e)
    with start cr show ?thesis by simp
  next
    case (Inr container)
    show ?thesis
    proof (cases "export_reply eng tr2 container")
      case (Inl xerr)
      with start cr Inr show ?thesis by (simp add: dockerExport_def)
    next
      case c: (Inr contents)
      show ?thesis
      proof (cases "rm_reply eng (tr2 @ [Export container]) container")
        case None
        with start cr Inr c show ?thesis by (simp add: dockerExport_def dockerRm_def)
      next
        case (Some rerr)
        with start cr Inr c show ?thesis by (simp add: dockerExport_def dockerRm_def)
      qed
    qed
  qed
qed

lemma ImageTar_after_create:
  assumes "pfx = [] \<or> last pfx = CHR ''/''"
    and "tarPrefix pfx tw = (None, tw1)"
    and "pull \<or> trust \<longrightarrow> pull_reply eng tr img pull trust = None"
    and "tr0 = (if pull \<or> trust then tr @ [Pull img pull trust] else tr)"
    and "ImageTar_create eng img trust tr0 = (Inl e, tr1)"
  shows "ImageTar eng img pfx tw trust pull tr = (Some e, tw1, tr1)"
  by (simp add: ImageTar_def ImageTar_fetch_created [OF assms(1-4)] assms(5))

lemma ImageTar_after_create_ok:
  assumes "pfx = [] \<or> last pfx = CHR ''/''"
    and "tarPrefix pfx tw = (None, tw1)"
    and "pull \<or> trust \<longrightarrow> pull_reply eng tr img pull trust = None"
    and "tr0 = (if pull \<or> trust then tr @ [Pull img pull trust] else tr)"
    and "ImageTar_create eng img trust tr0 = (Inr c, tr1)"
  shows "\<exists>rest. snd (snd (ImageTar eng img pfx tw trust pull tr)) = tr1 @ rest
           \<and> filter is_Create rest = [] \<and> filter is_Pull rest = []"
proof (cases "export_reply eng tr1 c")
  case (Inl xerr)
  then have "snd (snd (ImageTar eng img pfx tw trust pull tr)) = tr1 @ [Export c]"
    by (simp add: ImageTar_def ImageTar_fetch_created [OF assms(1-4)] assms(5))
  then show ?thesis by (simp add: is_Create_def is_Pull_def)
next
  case (Inr contents)
  have "snd (snd (ImageTar eng img pfx tw trust pull tr)) = tr1 @ [Export c, Rm c]"
  proof (cases "rm_reply eng (tr1 @ [Export c]) c")
    case None
    with Inr show ?thesis
      by (simp add: ImageTar_def ImageTar_fetch_created [OF assms(1-4)] assms(5) split: prod.splits)
  next
    case (Some rerr)
    with Inr show ?thesis
      by (simp add: ImageTar_def ImageTar_fetch_created [OF assms(1-4)] assms(5))
  qed
  then show ?thesis by (simp add: is_Create_def is_Pull_def)
qed

text \<open>
  C7. When the first \<open>dockerCreate\<close> fails with a message containing "No such image",
  \<open>ImageTar\<close> pulls the image (with \<open>pull = true\<close>) and creates again, exactly once: if
  the pull fails the error "Could not pull image" is returned and no second creation is
  made; if the second creation fails the error "Failed to docker create image" is returned;
  if it succeeds, no further creation or pull follows. A first creation that fails with any
  other message is returned at once as "Failed to create docker image", and the creation is
  the last call to the engine. \<open>tr0\<close> is the trace when the first creation is made: the
  calls before \<open>ImageTar\<close> and, when \<open>pull\<close> or \<open>trust\<close> is set, the pull that precedes
  every creation.
\<close>

theorem ImageTar_not_found_retry:
  assumes "pfx = [] \<or> last pfx = CHR ''/''"
    and "tarPrefix pfx tw = (None, tw1)"
    and "pull \<or> trust \<longrightarrow> pull_reply eng tr img pull trust = None"
    and "tr0 = (if pull \<or> trust then tr @ [Pull img pull trust] else tr)"
    and "create_reply eng tr0 img = Inl err"
  shows "if Contains err ''No such image'' then
           (case pull_reply eng (tr0 @ [Create img]) img True trust of
              Some perr \<Rightarrow>
                ImageTar eng img pfx tw trust pull tr =
                  (Some (Error (''Could not pull image '' @ img @ '': '' @ perr)), tw1,
                   tr0 @ [Create img, Pull img True trust])
            | None \<Rightarrow>
                (case create_reply eng (tr0 @ [Create img, Pull img True trust]) img of
                   Inl err2 \<Rightarrow>
                     ImageTar eng img pfx tw trust pull tr =
                       (Some (Error (''Failed to docker create image '' @ img @ '': '' @ err2)), tw1,
                        tr0 @ [Create img, Pull img True trust, Create img])
                 | Inr container \<Rightarrow>
                     (\<exists>rest. snd (snd (ImageTar eng img pfx tw trust pull tr)) =
                         tr0 @ [Create img, Pull img True trust, Create img] @ rest
                       \<and> filter is_Create rest = [] \<and> filter is_Pull rest = [])))
         else
           ImageTar eng img pfx tw trust pull tr =
             (Some (Error (''Failed to create docker image '' @ img @ '': '' @ err)), tw1,
              tr0 @ [Create img])"
proof (cases "Contains err ''No such image''")
  case False
  then have "ImageTar_create eng img trust tr0 =
      (Inl (Error (''Failed to create docker image '' @ img @ '': '' @ err)), tr0 @ [Create img])"
    using assms(5) by (simp add: ImageTar_create_def dockerCreate_def)
  from ImageTar_after_create [OF assms(1-4) this] False show ?thesis by simp
next
  case True
  show ?thesis
  proof (cases "pull_reply eng (tr0 @ [Create img]) img True trust")
    case (Some perr)
    then have "ImageTar_create eng img trust tr0 =
      (Inl (Error (''Could not pull image '' @ img @ '': '' @ perr)),
       tr0 @ [Create img, Pull img True trust])"
      using assms(5) True by (simp add: ImageTar_create_def dockerCreate_def dockerPull_def)
    from ImageTar_after_create [OF assms(1-4) this] True Some show ?thesis by simp
  next
    case None
    show ?thesis
    proof (cases "create_reply eng (tr0 @ [Create img, Pull img True trust]) img")
      case (Inl err2)
      then have "ImageTar_create eng img trust tr0 =
        (Inl (Error (''Failed to docker create image '' @ img @ '': '' @ err2)),
         tr0 @ [Create img, Pull img True trust, Create img])"
        using assms(5) True None by (simp add: ImageTar_create_def dockerCreate_def dockerPull_def)
      from ImageTar_after_create [OF assms(1-4) this] True None Inl show ?thesis by simp
    next
      case (Inr c)
      then have "ImageTar_create eng img trust tr0 =
        (Inr c, tr0 @ [Create img, Pull img True trust, Create img])"
        using assms(5) True None by (simp add: ImageTar_create_def dockerCreate_def dockerPull_def)
      from ImageTar_after_create_ok [OF assms(1-4) this] True None Inr show ?thesis by simp
    qed
  qed
qed

section \<open>ImageTar: exclusion, replacement, retry on a concrete export\<close>

lemma ImageTar_from_fetch:
  "ImageTar_fetch eng img pfx tw trust pull tr = (Inr S, tw1, tr1) \<Longrightarrow>
   ImageTar eng img pfx tw trust pull tr =
     (fst (ImageTar_copy pfx S tw1), snd (ImageTar_copy pfx S tw1), tr1)"
  by (simp add: ImageTar_def split: prod.splits)

text \<open>
  C5. For every exported stream \<open>S\<close>, prefix and writer: every call that \<open>ImageTar\<close> makes
  on the writer after the leading directories comes from an entry of \<open>S\<close> whose name is not
  in the exclusion set (a header carries the prefixed name of such an entry, a write its
  body or its replacement), whether or not the run fails later; and a run that succeeds
  leaves the writer exactly as the run on \<open>S\<close> without its excluded entries does: their
  bytes were read and dropped.
\<close>

theorem ImageTar_never_writes_excluded:
  assumes "ImageTar_fetch eng img pfx tw trust pull tr = (Inr S, tw1, tr1)"
    and "ImageTar eng img pfx tw trust pull tr = (r, tw2, tr2)"
  shows "(\<exists>ops. written tw2 = written tw1 @ ops \<and> (\<forall>op \<in> set ops. from_kept_entry pfx S op))
       \<and> (r = None \<longrightarrow> ImageTar_copy pfx (kept S) tw1 = (None, tw2))"
proof -
  from ImageTar_from_fetch [OF assms(1)] assms(2)
  have c: "ImageTar_copy pfx S tw1 = (r, tw2)"
    by (cases "ImageTar_copy pfx S tw1") simp
  from ImageTar_copy_ops [OF c]
  have "\<exists>ops. written tw2 = written tw1 @ ops \<and> (\<forall>op \<in> set ops. from_kept_entry pfx S op)"
    by blast
  moreover have "r = None \<longrightarrow> ImageTar_copy pfx (kept S) tw1 = (None, tw2)"
    using c by (auto dest: ImageTar_copy_kept)
  ultimately show ?thesis by blast
qed

text \<open>
  C6. For every exported stream \<open>S\<close> and every entry of \<open>S\<close> named \<open>etc/hosts\<close> or
  \<open>etc/resolv.conf\<close>: a run of \<open>ImageTar\<close> that returns nil has written the entry's
  header with the size set to the length of the fixed replacement text and the name
  prefixed, followed by the replacement text; and the result, the writer and the trace of
  every run are the same as on the stream in which the size and the body of these entries
  are wiped, so nothing written depends on them.
\<close>

theorem ImageTar_writes_replacement:
  assumes "ImageTar_fetch eng img pfx tw trust pull tr = (Inr S, tw1, tr1)"
  shows "(\<forall>tw2 tr2 h body rerr.
            ImageTar eng img pfx tw trust pull tr = (None, tw2, tr2) \<and>
            Entry h body rerr \<in> set S \<and> Name h \<in> {''etc/hosts'', ''etc/resolv.conf''} \<longrightarrow>
            (\<exists>pre post. written tw2 = written tw1 @ pre @
               [WriteHeader (h\<lparr>Size := int (length (replace (Name h))), Name := pfx @ Name h\<rparr>),
                Write (replace (Name h))] @ post))
       \<and> ImageTar eng img pfx tw trust pull tr =
           (fst (ImageTar_copy pfx (map scrub S) tw1), snd (ImageTar_copy pfx (map scrub S) tw1), tr1)"
proof (intro conjI allI impI)
  fix tw2 tr2 h body rerr
  assume a: "ImageTar eng img pfx tw trust pull tr = (None, tw2, tr2) \<and>
            Entry h body rerr \<in> set S \<and> Name h \<in> {''etc/hosts'', ''etc/resolv.conf''}"
  with ImageTar_from_fetch [OF assms]
  have c: "ImageTar_copy pfx S tw1 = (None, tw2)"
    by (cases "ImageTar_copy pfx S tw1") simp
  from a have "replace (Name h) \<noteq> []"
    using replace_paths [of h] by blast
  with ImageTar_copy_replaced [OF c] a
  show "\<exists>pre post. written tw2 = written tw1 @ pre @
               [WriteHeader (h\<lparr>Size := int (length (replace (Name h))), Name := pfx @ Name h\<rparr>),
                Write (replace (Name h))] @ post"
    by blast
next
  show "ImageTar eng img pfx tw trust pull tr =
           (fst (ImageTar_copy pfx (map scrub S) tw1), snd (ImageTar_copy pfx (map scrub S) tw1), tr1)"
    using ImageTar_from_fetch [OF assms] by (simp add: ImageTar_copy_scrub)
qed

lemma example_not_found: "Contains (''Error: No such image: '' @ ''alpine'') ''No such image''"
  unfolding Contains_def by code_simp

lemma example_tarPrefix:
  "tarPrefix ''rootfs/'' example_writer =
     (None, example_writer\<lparr>written :=
        [WriteHeader \<lparr>Name = ''rootfs'', Mode = 493, Size = 0, Typeflag = TypeDir, Linkname = []\<rparr>]\<rparr>)"
  by (simp add: tarPrefix_def example_writer_def tw_call_def)

lemma example_fetch:
  "ImageTar_fetch example_engine ''alpine'' ''rootfs/'' example_writer False False [] =
     (Inr example_stream,
      example_writer\<lparr>written :=
        [WriteHeader \<lparr>Name = ''rootfs'', Mode = 493, Size = 0, Typeflag = TypeDir, Linkname = []\<rparr>]\<rparr>,
      [Create ''alpine'', Pull ''alpine'' True False, Create ''alpine'', Export ''c0'', Rm ''c0''])"
proof -
  have "ImageTar_create example_engine ''alpine'' False [] =
      (Inr ''c0'', [Create ''alpine'', Pull ''alpine'' True False, Create ''alpine''])"
    using example_not_found
    by (simp add: ImageTar_create_def dockerCreate_def dockerPull_def example_engine_def)
  then show ?thesis
    using ImageTar_fetch_created [OF _ example_tarPrefix, where pull = False and trust = False
        and tr = "[]" and ?tr0.0 = "[]" and img = "''alpine''" and eng = example_engine]
    by (simp add: example_engine_def)
qed

lemma example_copy:
  "ImageTar_copy ''rootfs/'' example_stream
     (example_writer\<lparr>written :=
        [WriteHeader \<lparr>Name = ''rootfs'', Mode = 493, Size = 0, Typeflag = TypeDir, Linkname = []\<rparr>]\<rparr>) =
   (None, example_writer\<lparr>written :=
      [WriteHeader \<lparr>Name = ''rootfs'', Mode = 493, Size = 0, Typeflag = TypeDir, Linkname = []\<rparr>,
       WriteHeader \<lparr>Name = ''rootfs/etc/resolv.conf'', Mode = 420, Size = 102, Typeflag = CHR ''0'',
         Linkname = []\<rparr>,
       Write etc_resolv_conf,
       WriteHeader \<lparr>Name = ''rootfs/bin/sh'', Mode = 493, Size = 2, Typeflag = CHR ''0'',
         Linkname = []\<rparr>,
       Write ''#!'']\<rparr>)"
  by (simp add: example_stream_def example_writer_def exclude_def replace_def tw_call_def io_Copy_def
      io_Copy_Discard_def etc_resolv_conf_def etc_hosts_def)


lemma example_ImageTar:
  "ImageTar example_engine ''alpine'' ''rootfs/'' example_writer False False [] =
   (None, example_writer\<lparr>written :=
      [WriteHeader \<lparr>Name = ''rootfs'', Mode = 493, Size = 0, Typeflag = TypeDir, Linkname = []\<rparr>,
       WriteHeader \<lparr>Name = ''rootfs/etc/resolv.conf'', Mode = 420, Size = 102, Typeflag = CHR ''0'',
         Linkname = []\<rparr>,
       Write etc_resolv_conf,
       WriteHeader \<lparr>Name = ''rootfs/bin/sh'', Mode = 493, Size = 2, Typeflag = CHR ''0'',
         Linkname = []\<rparr>,
       Write ''#!'']\<rparr>,
    [Create ''alpine'', Pull ''alpine'' True False, Create ''alpine'', Export ''c0'', Rm ''c0''])"
  by (simp add: ImageTar_from_fetch [OF example_fetch] example_copy)

theorem ImageTar_never_writes_excluded_witness:
  "(\<exists>ops. written (fst (snd (ImageTar example_engine ''alpine'' ''rootfs/'' example_writer False False [])))
        = [WriteHeader \<lparr>Name = ''rootfs'', Mode = 493, Size = 0, Typeflag = TypeDir, Linkname = []\<rparr>] @ ops
      \<and> (\<forall>op \<in> set ops. from_kept_entry ''rootfs/'' example_stream op))
   \<and> ImageTar_copy ''rootfs/'' (kept example_stream)
        (example_writer\<lparr>written :=
          [WriteHeader \<lparr>Name = ''rootfs'', Mode = 493, Size = 0, Typeflag = TypeDir, Linkname = []\<rparr>]\<rparr>)
      = (None, fst (snd (ImageTar example_engine ''alpine'' ''rootfs/'' example_writer False False [])))"
  using ImageTar_never_writes_excluded [OF example_fetch example_ImageTar]
  by (simp add: example_ImageTar)

theorem ImageTar_writes_replacement_witness:
  "\<exists>pre post.
     written (fst (snd (ImageTar example_engine ''alpine'' ''rootfs/'' example_writer False False []))) =
       [WriteHeader \<lparr>Name = ''rootfs'', Mode = 493, Size = 0, Typeflag = TypeDir, Linkname = []\<rparr>]
       @ pre @
       [WriteHeader \<lparr>Name = ''rootfs/etc/resolv.conf'', Mode = 420, Size = 102, Typeflag = CHR ''0'',
          Linkname = []\<rparr>,
        Write etc_resolv_conf] @ post"
proof -
  let ?h = "\<lparr>Name = ''etc/resolv.conf'', Mode = 420, Size = 10, Typeflag = CHR ''0'', Linkname = []\<rparr>"
  have mem: "Entry ?h ''search lan'' None \<in> set example_stream"
    by (simp add: example_stream_def)
  from ImageTar_writes_replacement [OF example_fetch]
  have "\<forall>tw2 tr2 h body rerr.
            ImageTar example_engine ''alpine'' ''rootfs/'' example_writer False False [] = (None, tw2, tr2) \<and>
            Entry h body rerr \<in> set example_stream \<and> Name h \<in> {''etc/hosts'', ''etc/resolv.conf''} \<longrightarrow>
            (\<exists>pre post. written tw2 =
               written (example_writer\<lparr>written :=
                 [WriteHeader \<lparr>Name = ''rootfs'', Mode = 493, Size = 0, Typeflag = TypeDir, Linkname = []\<rparr>]\<rparr>)
               @ pre @
               [WriteHeader (h\<lparr>Size := int (length (replace (Name h))), Name := ''rootfs/'' @ Name h\<rparr>),
                Write (replace (Name h))] @ post)"
    by (rule conjunct1)
  from this [rule_format, OF conjI [OF example_ImageTar conjI [OF mem]]]
  show ?thesis
    by (simp add: example_ImageTar replace_def etc_resolv_conf_def)
qed

theorem ImageTar_not_found_retry_witness:
  "\<exists>rest. snd (snd (ImageTar example_engine ''alpine'' ''rootfs/'' example_writer False False [])) =
       [Create ''alpine'', Pull ''alpine'' True False, Create ''alpine''] @ rest
     \<and> filter is_Create rest = [] \<and> filter is_Pull rest = []"
proof -
  have c: "create_reply example_engine [] ''alpine'' = Inl (''Error: No such image: '' @ ''alpine'')"
    by (simp add: example_engine_def)
  from ImageTar_not_found_retry [OF _ example_tarPrefix _ _ c, where pull = False and trust = False
      and tr = "[]"]
  show ?thesis
    using example_not_found by (simp add: example_engine_def)
qed

end
